theory Spec2Isabelle
  imports Main
begin

section \<open>JniInvocation.cpp: the data model\<close>

text \<open>
  Names follow the source. A C++ member name ending in an underscore (\<open>handle_\<close>) is
  written with a prime instead (\<open>handle'\<close>), since an Isabelle name cannot end in an
  underscore. A null pointer is \<open>None\<close>.
\<close>

type_synonym handle = nat
type_synonym fn_ptr = nat
type_synonym address = nat

text \<open>
  A \<open>const char*\<close> that is not null, by the storage it points into:
  \<^item> \<open>Static_str s\<close>: a string literal (static storage) with content \<open>s\<close>;
  \<^item> \<open>Caller_str s\<close>: the string the caller passed in, with content \<open>s\<close>;
  \<^item> \<open>Local_buf s\<close>: the automatic array \<open>default_library\<close> of \<open>GetLibrary\<close>,
    which held \<open>s\<close> when \<open>GetLibrary\<close> returned. The array's lifetime ends with that
    return, so nothing can be read through such a pointer afterwards.
\<close>

datatype c_str = Static_str string | Caller_str string | Local_buf string

fun c_str_read :: "c_str \<Rightarrow> string option" where
  "c_str_read (Static_str s) = Some s"
| "c_str_read (Caller_str s) = Some s"
| "c_str_read (Local_buf s) = None"

text \<open>
  The build and its platform configuration: whether \<open>HAVE_ANDROID_OS\<close> is defined, and
  the system-property store that \<open>property_get\<close> reads in such a build.
\<close>

record config =
  HAVE_ANDROID_OS :: bool
  properties :: "string \<rightharpoonup> string"

definition kLibrarySystemProperty :: string where
  "kLibrarySystemProperty = ''persist.sys.dalvik.vm.lib.2''"

definition kDebuggableSystemProperty :: string where
  "kDebuggableSystemProperty = ''ro.debuggable''"

definition kDebuggableFallback :: string where
  "kDebuggableFallback = ''0''"

definition kLibraryFallback :: string where
  "kLibraryFallback = ''libart.so''"

text \<open>
  Modelled from the spec: \<open>property_get\<close> of \<open>cutils/properties.h\<close> is not part of the
  repository. The spec: a configuration value is read from the external store, and the
  given default stands in for it when the value is absent.
\<close>

definition property_get :: "(string \<rightharpoonup> string) \<Rightarrow> string \<Rightarrow> string \<Rightarrow> string" where
  "property_get store key default_value =
     (case store key of None \<Rightarrow> default_value | Some v \<Rightarrow> v)"

subsection \<open>GetLibrary\<close>

text \<open>
  The two local variables \<open>library\<close> (a pointer, possibly null) and
  \<open>default_library\<close> are bound as the source assigns them. With \<open>HAVE_ANDROID_OS\<close>,
  \<open>default_library\<close> is an automatic \<open>char\<close> array, so the pointer made from it at
  \<open>library = default_library\<close> is a \<open>Local_buf\<close>; without, it is a pointer to the
  literal \<open>kLibraryFallback\<close>.
\<close>

definition GetLibrary :: "config \<Rightarrow> string option \<Rightarrow> c_str" where
  "GetLibrary cfg requested =
     (let library = map_option Caller_str requested in
      if HAVE_ANDROID_OS cfg then
        (let debuggable =
               property_get (properties cfg) kDebuggableSystemProperty kDebuggableFallback;
             (library, default_library) =
               (if debuggable \<noteq> ''1''
                then (Some (Static_str kLibraryFallback), [])
                else (library,
                      property_get (properties cfg) kLibrarySystemProperty kLibraryFallback))
         in case library of None \<Rightarrow> Local_buf default_library | Some p \<Rightarrow> p)
      else
        (let default_library = Static_str kLibraryFallback
         in case library of None \<Rightarrow> default_library | Some p \<Rightarrow> p))"

subsection \<open>The Loader instance and the dynamic linker\<close>

text \<open>
  The members of \<open>JniInvocation\<close>: the library handle and the three function pointers.
\<close>

record JniInvocation =
  handle' :: "handle option"
  JNI_GetDefaultJavaVMInitArgs' :: "fn_ptr option"
  JNI_CreateJavaVM' :: "fn_ptr option"
  JNI_GetCreatedJavaVMs' :: "fn_ptr option"

text \<open>
  The dynamic linker, as one call of \<open>Init\<close> sees it: \<open>dlopen\<close> gives a handle for the
  library names it can open and null for the others, \<open>dlsym\<close> gives an address for the
  symbols a handle has and null for the others. Within one call no name is opened twice
  and no symbol is looked up twice, so a function of the arguments loses nothing.
\<close>

record dl_env =
  dlopen :: "string \<rightharpoonup> handle"
  dlsym :: "handle option \<times> string \<rightharpoonup> fn_ptr"

text \<open>
  What a run does to the outside, in order: the calls of \<open>dlopen\<close>, \<open>dlsym\<close> and
  \<open>dlclose\<close> with their arguments, and the log lines (the message and its string
  arguments; the text of \<open>dlerror()\<close> is left out).
\<close>

datatype event =
    Dlopen string
  | Dlsym "handle option" string
  | Dlclose "handle option"
  | ALOGE string "string list"
  | ALOGW string "string list"

text \<open>
  What stops a run: a read through a pointer to a dead automatic array, the fatal
  assertion log (condition, tag and message), and a member call on an address that
  holds no live instance.
\<close>

datatype fault =
    Dangling_read
  | Log_assert string string string
  | No_object address

definition LOG_TAG :: string where
  "LOG_TAG = ''JniInvocation''"

text \<open>
  Modelled from the spec: \<open>__android_log_assert\<close> (declared in \<open>ALog-priv.h\<close>) is not part
  of the repository. The spec: fatal log lines carry the fixed component tag, and a
  fatal log terminates the process. The call is the end of the run.
\<close>

definition android_log_assert :: "string \<Rightarrow> string \<Rightarrow> string \<Rightarrow> fault" where
  "android_log_assert cond tag fmt = Log_assert cond tag fmt"

text \<open>The \<open>void**\<close> argument of \<open>FindSymbol\<close>: which member it points to.\<close>

datatype slot = GetDefaultJavaVMInitArgs_slot | CreateJavaVM_slot | GetCreatedJavaVMs_slot

fun store_slot :: "slot \<Rightarrow> fn_ptr option \<Rightarrow> JniInvocation \<Rightarrow> JniInvocation" where
  "store_slot GetDefaultJavaVMInitArgs_slot p this = this\<lparr>JNI_GetDefaultJavaVMInitArgs' := p\<rparr>"
| "store_slot CreateJavaVM_slot p this = this\<lparr>JNI_CreateJavaVM' := p\<rparr>"
| "store_slot GetCreatedJavaVMs_slot p this = this\<lparr>JNI_GetCreatedJavaVMs' := p\<rparr>"

subsection \<open>FindSymbol\<close>

text \<open>
  The state is the instance and the events so far. The looked-up address is stored
  through \<open>pointer\<close> first; when it is null the handle is closed and the member
  \<open>handle_\<close> set to null.
\<close>

definition FindSymbol ::
  "dl_env \<Rightarrow> slot \<Rightarrow> string \<Rightarrow> JniInvocation \<times> event list
     \<Rightarrow> bool \<times> JniInvocation \<times> event list" where
  "FindSymbol env pointer symbol st =
     (let (this, tr) = st;
          p = dlsym env (handle' this, symbol);
          tr = tr @ [Dlsym (handle' this) symbol];
          this = store_slot pointer p this
      in if p = None
         then (False, this\<lparr>handle' := None\<rparr>,
               tr @ [ALOGE ''Failed to find symbol'' [symbol], Dlclose (handle' this)])
         else (True, this, tr))"

subsection \<open>Init\<close>

text \<open>
  \<open>Init_symbols\<close> is the second half of \<open>Init\<close> (the three \<open>FindSymbol\<close> calls with
  their early returns), which both successful opens fall through to.
\<close>

definition Init_symbols ::
  "dl_env \<Rightarrow> JniInvocation \<times> event list \<Rightarrow> bool \<times> JniInvocation \<times> event list" where
  "Init_symbols env st =
     (let (ok, st) = FindSymbol env GetDefaultJavaVMInitArgs_slot
                       ''JNI_GetDefaultJavaVMInitArgs'' st
      in if \<not> ok then (False, st)
         else
           (let (ok, st) = FindSymbol env CreateJavaVM_slot ''JNI_CreateJavaVM'' st
            in if \<not> ok then (False, st)
               else
                 (let (ok, st) = FindSymbol env GetCreatedJavaVMs_slot
                                   ''JNI_GetCreatedJavaVMs'' st
                  in if \<not> ok then (False, st)
                     else (True, st))))"

text \<open>
  \<open>dlopen\<close> and \<open>strcmp\<close> read the name through the pointer that \<open>GetLibrary\<close>
  returned; when that pointer is to the dead array the run stops there.
\<close>

definition Init ::
  "dl_env \<Rightarrow> config \<Rightarrow> string option \<Rightarrow> JniInvocation
     \<Rightarrow> fault + bool \<times> JniInvocation \<times> event list" where
  "Init env cfg requested this =
     (case c_str_read (GetLibrary cfg requested) of
        None \<Rightarrow> Inl Dangling_read
      | Some library \<Rightarrow>
          (let this = this\<lparr>handle' := dlopen env library\<rparr>;
               tr = [Dlopen library]
           in if handle' this = None then
                if library = kLibraryFallback then
                  Inr (False, this, tr @ [ALOGE ''Failed to dlopen'' [library]])
                else
                  (let tr = tr @ [ALOGW ''Falling back after dlopen error''
                                    [library, kLibraryFallback]];
                       library = kLibraryFallback;
                       this = this\<lparr>handle' := dlopen env library\<rparr>;
                       tr = tr @ [Dlopen library]
                   in if handle' this = None then
                        Inr (False, this, tr @ [ALOGE ''Failed to dlopen'' [library]])
                      else Inr (Init_symbols env (this, tr)))
              else Inr (Init_symbols env (this, tr))))"

text \<open>The library names a run tried to open, in order.\<close>

fun dlopen_calls :: "event list \<Rightarrow> string list" where
  "dlopen_calls [] = []"
| "dlopen_calls (Dlopen n # es) = n # dlopen_calls es"
| "dlopen_calls (e # es) = dlopen_calls es"

subsection \<open>Construction and destruction in a process\<close>

text \<open>
  A process: the static member \<open>jni_invocation_\<close>, the live instances by address, and
  the events so far.
\<close>

record process =
  jni_invocation' :: "address option"
  objects :: "address \<rightharpoonup> JniInvocation"
  events :: "event list"

text \<open>At program start \<open>jni_invocation_\<close> is null and no instance exists.\<close>

definition process_start :: process where
  "process_start = \<lparr>jni_invocation' = None, objects = Map.empty, events = []\<rparr>"

text \<open>The member initialisers of the constructor.\<close>

definition JniInvocation_init :: JniInvocation where
  "JniInvocation_init =
     \<lparr>handle' = None, JNI_GetDefaultJavaVMInitArgs' = None,
      JNI_CreateJavaVM' = None, JNI_GetCreatedJavaVMs' = None\<rparr>"

text \<open>
  The constructor, run for an instance at address \<open>this\<close>: when \<open>jni_invocation_\<close> is
  not null the fatal assertion ends the process, otherwise the new instance, with its
  members initialised, becomes the one \<open>jni_invocation_\<close> points to.
\<close>

definition JniInvocation_ctor :: "address \<Rightarrow> process \<Rightarrow> fault + process" where
  "JniInvocation_ctor this p =
     (if jni_invocation' p \<noteq> None
      then Inl (android_log_assert ''jni_invocation_ != NULL'' LOG_TAG
                  ''JniInvocation instance already initialized'')
      else Inr (p\<lparr>jni_invocation' := Some this,
                  objects := (objects p)(this \<mapsto> JniInvocation_init)\<rparr>))"

text \<open>The destructor, run for the live instance at address \<open>this\<close>.\<close>

definition JniInvocation_dtor :: "address \<Rightarrow> process \<Rightarrow> fault + process" where
  "JniInvocation_dtor this p =
     (case objects p this of
        None \<Rightarrow> Inl (No_object this)
      | Some obj \<Rightarrow>
          Inr (p\<lparr>jni_invocation' := None,
                 events := events p @ (if handle' obj \<noteq> None then [Dlclose (handle' obj)] else []),
                 objects := (objects p)(this := None)\<rparr>))"

text \<open>
  What client code can do with the class: construct an instance, destroy one, call
  \<open>Init\<close> on one. A sequence of such operations runs until the first fault.
\<close>

datatype operation =
    Construct address
  | Destroy address
  | Load address dl_env config "string option"

fun step :: "operation \<Rightarrow> process \<Rightarrow> fault + process" where
  "step (Construct this) p = JniInvocation_ctor this p"
| "step (Destroy this) p = JniInvocation_dtor this p"
| "step (Load this env cfg requested) p =
     (case objects p this of
        None \<Rightarrow> Inl (No_object this)
      | Some obj \<Rightarrow>
          (case Init env cfg requested obj of
             Inl f \<Rightarrow> Inl f
           | Inr (ok, obj', tr) \<Rightarrow>
               Inr (p\<lparr>objects := (objects p)(this \<mapsto> obj'), events := events p @ tr\<rparr>)))"

fun run :: "operation list \<Rightarrow> process \<Rightarrow> fault + process" where
  "run [] p = Inr p"
| "run (x # xs) p = (case step x p of Inl f \<Rightarrow> Inl f | Inr p' \<Rightarrow> run xs p')"

text \<open>
  The invariant of the static member: every live instance is the one that
  \<open>jni_invocation_\<close> points to.
\<close>

definition singleton_inv :: "process \<Rightarrow> bool" where
  "singleton_inv p = (\<forall>a. objects p a \<noteq> None \<longrightarrow> jni_invocation' p = Some a)"

section \<open>Auxiliary facts\<close>

lemma dlopen_calls_append: "dlopen_calls (xs @ ys) = dlopen_calls xs @ dlopen_calls ys"
  by (induction xs rule: dlopen_calls.induct) simp_all

text \<open>
  Without \<open>HAVE_ANDROID_OS\<close> no property is read: the requested name is returned when
  there is one, the fallback literal otherwise.
\<close>

lemma GetLibrary_without_android_os:
  "\<not> HAVE_ANDROID_OS cfg \<Longrightarrow>
   GetLibrary cfg requested =
     (case requested of None \<Rightarrow> Static_str kLibraryFallback | Some name \<Rightarrow> Caller_str name)"
  by (simp add: GetLibrary_def Let_def split: option.splits)

text \<open>
  In a debuggable \<open>HAVE_ANDROID_OS\<close> build a null request yields the address of the
  automatic array, holding the preferred-library value or its default.
\<close>

lemma GetLibrary_debuggable_null:
  "HAVE_ANDROID_OS cfg \<Longrightarrow>
   property_get (properties cfg) kDebuggableSystemProperty kDebuggableFallback = ''1'' \<Longrightarrow>
   GetLibrary cfg None =
     Local_buf (property_get (properties cfg) kLibrarySystemProperty kLibraryFallback)"
  by (simp add: GetLibrary_def Let_def)

text \<open>\<open>FindSymbol\<close> and the three lookups of \<open>Init\<close>, by the outcome of each \<open>dlsym\<close>.\<close>

lemma FindSymbol_cases:
  "FindSymbol env pointer symbol (this, tr) =
     (case dlsym env (handle' this, symbol) of
        None \<Rightarrow> (False, (store_slot pointer None this)\<lparr>handle' := None\<rparr>,
                 tr @ [Dlsym (handle' this) symbol, ALOGE ''Failed to find symbol'' [symbol],
                       Dlclose (handle' this)])
      | Some a \<Rightarrow> (True, store_slot pointer (Some a) this, tr @ [Dlsym (handle' this) symbol]))"
  by (cases pointer) (simp_all add: FindSymbol_def Let_def split: option.splits)

lemma Init_symbols_cases:
  "Init_symbols env (this, tr) =
    (let h = handle' this in
     case dlsym env (h, ''JNI_GetDefaultJavaVMInitArgs'') of
       None \<Rightarrow> (False, this\<lparr>JNI_GetDefaultJavaVMInitArgs' := None, handle' := None\<rparr>,
                tr @ [Dlsym h ''JNI_GetDefaultJavaVMInitArgs'',
                      ALOGE ''Failed to find symbol'' [''JNI_GetDefaultJavaVMInitArgs''], Dlclose h])
     | Some a \<Rightarrow>
        (case dlsym env (h, ''JNI_CreateJavaVM'') of
           None \<Rightarrow> (False, this\<lparr>JNI_GetDefaultJavaVMInitArgs' := Some a,
                                JNI_CreateJavaVM' := None, handle' := None\<rparr>,
                    tr @ [Dlsym h ''JNI_GetDefaultJavaVMInitArgs'', Dlsym h ''JNI_CreateJavaVM'',
                          ALOGE ''Failed to find symbol'' [''JNI_CreateJavaVM''], Dlclose h])
         | Some b \<Rightarrow>
            (case dlsym env (h, ''JNI_GetCreatedJavaVMs'') of
               None \<Rightarrow> (False, this\<lparr>JNI_GetDefaultJavaVMInitArgs' := Some a,
                                    JNI_CreateJavaVM' := Some b,
                                    JNI_GetCreatedJavaVMs' := None, handle' := None\<rparr>,
                        tr @ [Dlsym h ''JNI_GetDefaultJavaVMInitArgs'', Dlsym h ''JNI_CreateJavaVM'',
                              Dlsym h ''JNI_GetCreatedJavaVMs'',
                              ALOGE ''Failed to find symbol'' [''JNI_GetCreatedJavaVMs''], Dlclose h])
             | Some c \<Rightarrow> (True, this\<lparr>JNI_GetDefaultJavaVMInitArgs' := Some a,
                                     JNI_CreateJavaVM' := Some b,
                                     JNI_GetCreatedJavaVMs' := Some c\<rparr>,
                        tr @ [Dlsym h ''JNI_GetDefaultJavaVMInitArgs'', Dlsym h ''JNI_CreateJavaVM'',
                              Dlsym h ''JNI_GetCreatedJavaVMs'']))))"
  by (simp add: Init_symbols_def FindSymbol_cases Let_def split: option.splits)

lemma Init_symbols_dlopen_calls:
  "Init_symbols env (this, tr) = (ok, this', tr') \<Longrightarrow> dlopen_calls tr' = dlopen_calls tr"
  by (auto simp: Init_symbols_cases Let_def dlopen_calls_append split: option.splits)

text \<open>\<open>Init\<close> by the outcome of its one or two \<open>dlopen\<close> calls.\<close>

lemma Init_cases:
  assumes "c_str_read (GetLibrary cfg requested) = Some library"
  shows "Init env cfg requested this =
    (case dlopen env library of
       Some h \<Rightarrow> Inr (Init_symbols env (this\<lparr>handle' := Some h\<rparr>, [Dlopen library]))
     | None \<Rightarrow>
        if library = kLibraryFallback
        then Inr (False, this\<lparr>handle' := None\<rparr>,
                  [Dlopen library, ALOGE ''Failed to dlopen'' [library]])
        else
          (case dlopen env kLibraryFallback of
             Some h \<Rightarrow> Inr (Init_symbols env (this\<lparr>handle' := Some h\<rparr>,
                         [Dlopen library,
                          ALOGW ''Falling back after dlopen error'' [library, kLibraryFallback],
                          Dlopen kLibraryFallback]))
           | None \<Rightarrow> Inr (False, this\<lparr>handle' := None\<rparr>,
                         [Dlopen library,
                          ALOGW ''Falling back after dlopen error'' [library, kLibraryFallback],
                          Dlopen kLibraryFallback,
                          ALOGE ''Failed to dlopen'' [kLibraryFallback]])))"
  using assms by (simp add: Init_def Let_def split: option.splits)

lemma Init_returns_reads_name:
  assumes "Init env cfg requested this = Inr r"
  obtains library where "c_str_read (GetLibrary cfg requested) = Some library"
  using assms by (cases "c_str_read (GetLibrary cfg requested)") (simp_all add: Init_def)

text \<open>The singleton invariant holds at program start and every operation keeps it.\<close>

lemma singleton_inv_start: "singleton_inv process_start"
  by (simp add: singleton_inv_def process_start_def)

lemma singleton_inv_live:
  "singleton_inv p \<Longrightarrow> objects p a \<noteq> None \<Longrightarrow> jni_invocation' p = Some a"
  by (simp add: singleton_inv_def)

lemma singleton_inv_unique:
  "singleton_inv p \<Longrightarrow> objects p a \<noteq> None \<Longrightarrow> objects p b \<noteq> None \<Longrightarrow> a = b"
  unfolding singleton_inv_def by (metis option.inject)

lemma singleton_inv_ctor:
  "singleton_inv p \<Longrightarrow> JniInvocation_ctor this p = Inr p' \<Longrightarrow> singleton_inv p'"
  by (auto simp: singleton_inv_def JniInvocation_ctor_def split: if_splits option.splits)

lemma singleton_inv_dtor:
  assumes "singleton_inv p" and "JniInvocation_dtor this p = Inr p'"
  shows "singleton_inv p'"
proof -
  from assms(2) obtain obj where live: "objects p this = Some obj"
    and objs: "objects p' = (objects p)(this := None)"
    by (auto simp: JniInvocation_dtor_def split: option.splits)
  have "objects p' a = None" for a
  proof (cases "a = this")
    case True
    with objs show ?thesis by simp
  next
    case False
    with singleton_inv_unique [OF assms(1), of a this] live have "objects p a = None"
      by (cases "objects p a") simp_all
    with objs False show ?thesis by simp
  qed
  then show ?thesis by (simp add: singleton_inv_def)
qed

lemma singleton_inv_step:
  "singleton_inv p \<Longrightarrow> step x p = Inr p' \<Longrightarrow> singleton_inv p'"
proof (cases x)
  case (Load this env cfg requested)
  assume "singleton_inv p" "step x p = Inr p'"
  with Load show ?thesis
    by (auto simp: singleton_inv_def split: option.splits sum.splits if_splits)
qed (auto intro: singleton_inv_ctor singleton_inv_dtor)

lemma singleton_inv_run:
  "singleton_inv p \<Longrightarrow> run xs p = Inr p' \<Longrightarrow> singleton_inv p'"
proof (induction xs arbitrary: p)
  case Nil
  then show ?case by simp
next
  case (Cons x xs)
  then show ?case
    by (auto split: sum.splits dest: singleton_inv_step)
qed

section \<open>Library name resolution\<close>

text \<open>
  C1, as stated (the fallback name for every requested name whenever the debuggable
  value is not set to debuggable), fails in a build without \<open>HAVE_ANDROID_OS\<close>: no
  property is read there, the debuggable value keeps its not-debuggable default, and a
  requested name is returned as it is.
\<close>

theorem GetLibrary_without_macro_counterexample:
  "property_get (properties \<lparr>HAVE_ANDROID_OS = False, properties = Map.empty\<rparr>)
       kDebuggableSystemProperty kDebuggableFallback = ''0''
   \<and> GetLibrary \<lparr>HAVE_ANDROID_OS = False, properties = Map.empty\<rparr> (Some ''custom.so'')
       = Caller_str ''custom.so''
   \<and> c_str_read (GetLibrary \<lparr>HAVE_ANDROID_OS = False, properties = Map.empty\<rparr>
         (Some ''custom.so'')) \<noteq> Some ''libart.so''"
  by (simp add: GetLibrary_def property_get_def kDebuggableFallback_def Let_def)

text \<open>
  C1, amended. Whenever the value read for \<open>ro.debuggable\<close> is not \<open>1\<close>, \<open>GetLibrary\<close>
  returns the fallback name \<open>libart.so\<close> for every requested name, null or not, in a
  build with \<open>HAVE_ANDROID_OS\<close>, and for the null request in a build without it; a
  build without \<open>HAVE_ANDROID_OS\<close> returns a non-null requested name as it is.
\<close>

theorem GetLibrary_not_debuggable:
  assumes "property_get (properties cfg) kDebuggableSystemProperty kDebuggableFallback \<noteq> ''1''"
  shows "(HAVE_ANDROID_OS cfg \<or> requested = None \<longrightarrow>
            GetLibrary cfg requested = Static_str kLibraryFallback
            \<and> c_str_read (GetLibrary cfg requested) = Some ''libart.so'')
       \<and> (\<not> HAVE_ANDROID_OS cfg \<longrightarrow>
            (\<forall>name. requested = Some name \<longrightarrow> GetLibrary cfg requested = Caller_str name))"
  using assms by (auto simp: GetLibrary_def Let_def kLibraryFallback_def)

theorem GetLibrary_not_debuggable_witness:
  "property_get (properties \<lparr>HAVE_ANDROID_OS = True, properties = Map.empty\<rparr>)
         kDebuggableSystemProperty kDebuggableFallback \<noteq> ''1''
   \<and> HAVE_ANDROID_OS \<lparr>HAVE_ANDROID_OS = True, properties = Map.empty\<rparr>
   \<and> c_str_read (GetLibrary \<lparr>HAVE_ANDROID_OS = True, properties = Map.empty\<rparr>
         (Some ''custom.so'')) = Some ''libart.so''
   \<and> property_get (properties \<lparr>HAVE_ANDROID_OS = False, properties = Map.empty\<rparr>)
         kDebuggableSystemProperty kDebuggableFallback \<noteq> ''1''
   \<and> \<not> HAVE_ANDROID_OS \<lparr>HAVE_ANDROID_OS = False, properties = Map.empty\<rparr>
   \<and> c_str_read (GetLibrary \<lparr>HAVE_ANDROID_OS = False, properties = Map.empty\<rparr> None)
         = Some ''libart.so''
   \<and> GetLibrary \<lparr>HAVE_ANDROID_OS = False, properties = Map.empty\<rparr> (Some ''other.so'')
         = Caller_str ''other.so''"
proof -
  have a: "property_get (properties \<lparr>HAVE_ANDROID_OS = True, properties = Map.empty\<rparr>)
             kDebuggableSystemProperty kDebuggableFallback \<noteq> ''1''"
    by (simp add: property_get_def kDebuggableFallback_def)
  have b: "property_get (properties \<lparr>HAVE_ANDROID_OS = False, properties = Map.empty\<rparr>)
             kDebuggableSystemProperty kDebuggableFallback \<noteq> ''1''"
    by (simp add: property_get_def kDebuggableFallback_def)
  show ?thesis
    using GetLibrary_not_debuggable [OF a, of "Some ''custom.so''"]
      GetLibrary_not_debuggable [OF b, of None]
      GetLibrary_not_debuggable [OF b, of "Some ''other.so''"] a b
    by (simp add: kLibraryFallback_def)
qed

text \<open>
  C5. When the value read for \<open>ro.debuggable\<close> is \<open>1\<close>, \<open>GetLibrary\<close> returns every
  non-null requested name as it is: the caller's own pointer. (A build without
  \<open>HAVE_ANDROID_OS\<close> does the same, whatever the store holds.)
\<close>

theorem GetLibrary_debuggable_requested:
  assumes "property_get (properties cfg) kDebuggableSystemProperty kDebuggableFallback = ''1''"
  shows "GetLibrary cfg (Some name) = Caller_str name
         \<and> c_str_read (GetLibrary cfg (Some name)) = Some name"
  using assms by (simp add: GetLibrary_def Let_def)

theorem GetLibrary_debuggable_requested_witness:
  "property_get (properties \<lparr>HAVE_ANDROID_OS = True, properties = [''ro.debuggable'' \<mapsto> ''1'']\<rparr>)
       kDebuggableSystemProperty kDebuggableFallback = ''1''
   \<and> GetLibrary \<lparr>HAVE_ANDROID_OS = True, properties = [''ro.debuggable'' \<mapsto> ''1'']\<rparr>
         (Some ''custom.so'') = Caller_str ''custom.so''"
  using GetLibrary_debuggable_requested
    [of "\<lparr>HAVE_ANDROID_OS = True, properties = [''ro.debuggable'' \<mapsto> ''1'']\<rparr>" "''custom.so''"]
  by (simp add: property_get_def kDebuggableSystemProperty_def)

text \<open>
  C6. The claim: in a debuggable build with a null requested name, \<open>GetLibrary\<close> returns
  the preferred-library value. At the spec's scenario B (\<open>ro.debuggable\<close> is \<open>1\<close>, the
  preferred library is \<open>libfoo.so\<close>, the requested name is null) the value is copied
  into the automatic array \<open>default_library\<close> and the address of that array is what
  \<open>GetLibrary\<close> returns: the array is dead when the caller has the pointer, no name can
  be read through it, and \<open>Init\<close> stops at its first read.
\<close>

theorem GetLibrary_null_request_returns_local_array:
  "GetLibrary \<lparr>HAVE_ANDROID_OS = True,
               properties = [''ro.debuggable'' \<mapsto> ''1'',
                             ''persist.sys.dalvik.vm.lib.2'' \<mapsto> ''libfoo.so'']\<rparr> None
     = Local_buf ''libfoo.so''
   \<and> c_str_read (GetLibrary \<lparr>HAVE_ANDROID_OS = True,
               properties = [''ro.debuggable'' \<mapsto> ''1'',
                             ''persist.sys.dalvik.vm.lib.2'' \<mapsto> ''libfoo.so'']\<rparr> None) = None
   \<and> Init \<lparr>dlopen = [''libfoo.so'' \<mapsto> 7, ''libart.so'' \<mapsto> 8], dlsym = Map.empty\<rparr>
        \<lparr>HAVE_ANDROID_OS = True,
         properties = [''ro.debuggable'' \<mapsto> ''1'',
                       ''persist.sys.dalvik.vm.lib.2'' \<mapsto> ''libfoo.so'']\<rparr> None
        JniInvocation_init = Inl Dangling_read"
  by (simp add: Init_def GetLibrary_def property_get_def Let_def
      kDebuggableSystemProperty_def kLibrarySystemProperty_def)

text \<open>
  C7, as stated (a non-empty name for every input, the empty requested name included),
  fails: a debuggable build returns the empty requested name as it is.
\<close>

theorem GetLibrary_empty_name_counterexample:
  "c_str_read (GetLibrary \<lparr>HAVE_ANDROID_OS = True, properties = [''ro.debuggable'' \<mapsto> ''1'']\<rparr>
     (Some [])) = Some []"
  by (simp add: GetLibrary_def property_get_def Let_def kDebuggableSystemProperty_def)

text \<open>
  C7, amended. \<open>GetLibrary\<close> has no error case, and the pointer it returns is to a
  non-empty name for every input but two. A requested empty string is returned as it is
  (a pointer to the empty string) when the value read for \<open>ro.debuggable\<close> is \<open>1\<close> or
  the build has no \<open>HAVE_ANDROID_OS\<close>; in a not-debuggable \<open>HAVE_ANDROID_OS\<close> build it
  too gives the fallback name. The null request of a debuggable \<open>HAVE_ANDROID_OS\<close>
  build (C6) is left aside.
\<close>

theorem GetLibrary_name_nonempty:
  "((requested = Some [] \<longrightarrow>
       HAVE_ANDROID_OS cfg
       \<and> property_get (properties cfg) kDebuggableSystemProperty kDebuggableFallback \<noteq> ''1'')
    \<and> (requested = None \<longrightarrow>
       \<not> HAVE_ANDROID_OS cfg
       \<or> property_get (properties cfg) kDebuggableSystemProperty kDebuggableFallback \<noteq> ''1'')
    \<longrightarrow> (\<exists>name. c_str_read (GetLibrary cfg requested) = Some name \<and> name \<noteq> []))
   \<and> (requested = Some [] \<longrightarrow>
        GetLibrary cfg requested =
          (if HAVE_ANDROID_OS cfg
              \<and> property_get (properties cfg) kDebuggableSystemProperty kDebuggableFallback
                  \<noteq> ''1''
           then Static_str kLibraryFallback else Caller_str []))"
  by (cases requested) (auto simp: GetLibrary_def Let_def kLibraryFallback_def)

theorem GetLibrary_name_nonempty_witness:
  "(\<exists>name. c_str_read (GetLibrary \<lparr>HAVE_ANDROID_OS = True,
                  properties = [''ro.debuggable'' \<mapsto> ''1'']\<rparr> (Some ''custom.so'')) = Some name
          \<and> name \<noteq> [])
   \<and> HAVE_ANDROID_OS \<lparr>HAVE_ANDROID_OS = True, properties = Map.empty\<rparr>
   \<and> property_get (properties \<lparr>HAVE_ANDROID_OS = True, properties = Map.empty\<rparr>)
        kDebuggableSystemProperty kDebuggableFallback \<noteq> ''1''
   \<and> (\<exists>name. c_str_read (GetLibrary \<lparr>HAVE_ANDROID_OS = True, properties = Map.empty\<rparr>
                  (Some [])) = Some name \<and> name \<noteq> [])
   \<and> GetLibrary \<lparr>HAVE_ANDROID_OS = True, properties = Map.empty\<rparr> (Some [])
        = Static_str kLibraryFallback
   \<and> \<not> HAVE_ANDROID_OS \<lparr>HAVE_ANDROID_OS = False, properties = Map.empty\<rparr>
   \<and> (\<exists>name. c_str_read (GetLibrary \<lparr>HAVE_ANDROID_OS = False, properties = Map.empty\<rparr> None)
                = Some name \<and> name \<noteq> [])
   \<and> GetLibrary \<lparr>HAVE_ANDROID_OS = False, properties = Map.empty\<rparr> (Some [])
        = Caller_str []"
proof -
  have a: "property_get (properties \<lparr>HAVE_ANDROID_OS = True, properties = Map.empty\<rparr>)
             kDebuggableSystemProperty kDebuggableFallback \<noteq> ''1''"
    by (simp add: property_get_def kDebuggableFallback_def)
  show ?thesis
    using GetLibrary_name_nonempty [of "Some ''custom.so''"
        "\<lparr>HAVE_ANDROID_OS = True, properties = [''ro.debuggable'' \<mapsto> ''1'']\<rparr>"]
      GetLibrary_name_nonempty [of "Some []" "\<lparr>HAVE_ANDROID_OS = True, properties = Map.empty\<rparr>"]
      GetLibrary_name_nonempty [of None "\<lparr>HAVE_ANDROID_OS = False, properties = Map.empty\<rparr>"]
      GetLibrary_name_nonempty [of "Some []" "\<lparr>HAVE_ANDROID_OS = False, properties = Map.empty\<rparr>"]
      a
    by (simp add: kLibraryFallback_def)
qed

section \<open>Load\<close>

text \<open>
  C3. Let the name that \<open>Init\<close> reads from \<open>GetLibrary\<close> fail to open. If it is the
  fallback name, \<open>Init\<close> returns false after that one \<open>dlopen\<close>. If it is not, the
  \<open>dlopen\<close> calls of the run are exactly two, the name and then the fallback; and when
  the fallback fails to open as well, \<open>Init\<close> returns false after those two.
\<close>

theorem Init_open_failure_retry:
  assumes "c_str_read (GetLibrary cfg requested) = Some library"
    and "dlopen env library = None"
  shows "(library = kLibraryFallback \<longrightarrow>
            Init env cfg requested this =
              Inr (False, this\<lparr>handle' := None\<rparr>,
                   [Dlopen library, ALOGE ''Failed to dlopen'' [library]]))
       \<and> (library \<noteq> kLibraryFallback \<longrightarrow>
            (\<exists>ok this' tr. Init env cfg requested this = Inr (ok, this', tr)
               \<and> dlopen_calls tr = [library, kLibraryFallback])
          \<and> (dlopen env kLibraryFallback = None \<longrightarrow>
               Init env cfg requested this =
                 Inr (False, this\<lparr>handle' := None\<rparr>,
                      [Dlopen library,
                       ALOGW ''Falling back after dlopen error'' [library, kLibraryFallback],
                       Dlopen kLibraryFallback,
                       ALOGE ''Failed to dlopen'' [kLibraryFallback]])))"
proof (cases "library = kLibraryFallback")
  case True
  with assms show ?thesis by (simp add: Init_cases)
next
  case False
  show ?thesis
  proof (cases "dlopen env kLibraryFallback")
    case None
    with assms False show ?thesis by (auto simp: Init_cases)
  next
    case (Some h)
    obtain ok this' tr where r: "Init_symbols env (this\<lparr>handle' := Some h\<rparr>,
        [Dlopen library, ALOGW ''Falling back after dlopen error'' [library, kLibraryFallback],
         Dlopen kLibraryFallback]) = (ok, this', tr)"
      by (metis prod_cases3)
    from Init_symbols_dlopen_calls [OF r]
    have "dlopen_calls tr = [library, kLibraryFallback]" by simp
    with assms False Some r show ?thesis by (simp add: Init_cases)
  qed
qed

theorem Init_open_failure_retry_witness:
  "c_str_read (GetLibrary \<lparr>HAVE_ANDROID_OS = True, properties = [''ro.debuggable'' \<mapsto> ''1'']\<rparr>
      (Some ''custom.so'')) = Some ''custom.so''
   \<and> dlopen \<lparr>dlopen = Map.empty, dlsym = Map.empty\<rparr> ''custom.so'' = None
   \<and> ''custom.so'' \<noteq> kLibraryFallback
   \<and> dlopen \<lparr>dlopen = Map.empty, dlsym = Map.empty\<rparr> kLibraryFallback = None
   \<and> Init \<lparr>dlopen = Map.empty, dlsym = Map.empty\<rparr>
        \<lparr>HAVE_ANDROID_OS = True, properties = [''ro.debuggable'' \<mapsto> ''1'']\<rparr>
        (Some ''custom.so'') JniInvocation_init =
      Inr (False, JniInvocation_init\<lparr>handle' := None\<rparr>,
           [Dlopen ''custom.so'',
            ALOGW ''Falling back after dlopen error'' [''custom.so'', kLibraryFallback],
            Dlopen kLibraryFallback,
            ALOGE ''Failed to dlopen'' [kLibraryFallback]])
   \<and> c_str_read (GetLibrary \<lparr>HAVE_ANDROID_OS = True, properties = Map.empty\<rparr> None)
        = Some kLibraryFallback
   \<and> Init \<lparr>dlopen = Map.empty, dlsym = Map.empty\<rparr>
        \<lparr>HAVE_ANDROID_OS = True, properties = Map.empty\<rparr> None JniInvocation_init =
      Inr (False, JniInvocation_init\<lparr>handle' := None\<rparr>,
           [Dlopen kLibraryFallback, ALOGE ''Failed to dlopen'' [kLibraryFallback]])"
proof -
  have a: "c_str_read (GetLibrary \<lparr>HAVE_ANDROID_OS = True,
             properties = [''ro.debuggable'' \<mapsto> ''1'']\<rparr> (Some ''custom.so'')) = Some ''custom.so''"
    by (simp add: GetLibrary_def property_get_def kDebuggableSystemProperty_def Let_def)
  have b: "c_str_read (GetLibrary \<lparr>HAVE_ANDROID_OS = True, properties = Map.empty\<rparr> None)
             = Some kLibraryFallback"
    by (simp add: GetLibrary_def property_get_def kDebuggableFallback_def Let_def)
  have c: "dlopen \<lparr>dlopen = Map.empty, dlsym = Map.empty\<rparr> n = None" for n
    by simp
  have d: "''custom.so'' \<noteq> kLibraryFallback"
    by (simp add: kLibraryFallback_def)
  show ?thesis
    using Init_open_failure_retry [OF a c, of JniInvocation_init]
      Init_open_failure_retry [OF b c, of JniInvocation_init] a b d
    by simp
qed

text \<open>
  C4. Whenever a \<open>dlsym\<close> of a run of \<open>Init\<close> finds nothing, \<open>Init\<close> returns false with
  the member \<open>handle_\<close> null; the handle looked in is the non-null one that a \<open>dlopen\<close>
  of the run returned; and the run ends with that \<open>dlsym\<close>, the error log line and the
  \<open>dlclose\<close> of that handle, so no further symbol is looked up.
\<close>

theorem Init_symbol_failure:
  assumes "Init env cfg requested this = Inr (ok, this', tr)"
    and "Dlsym h symbol \<in> set tr"
    and "dlsym env (h, symbol) = None"
  shows "\<not> ok \<and> handle' this' = None \<and> h \<noteq> None
       \<and> (\<exists>library. Dlopen library \<in> set tr \<and> dlopen env library = h)
       \<and> (\<exists>before. tr = before @ [Dlsym h symbol, ALOGE ''Failed to find symbol'' [symbol],
                                     Dlclose h])"
proof -
  from assms(1) obtain library where l: "c_str_read (GetLibrary cfg requested) = Some library"
    by (rule Init_returns_reads_name)
  from assms show ?thesis
    unfolding Init_cases [OF l] Init_symbols_cases Let_def
    by (auto split: option.splits if_splits)
qed

theorem Init_symbol_failure_witness:
  "Init \<lparr>dlopen = [''libart.so'' \<mapsto> 7],
         dlsym = [(Some 7, ''JNI_GetDefaultJavaVMInitArgs'') \<mapsto> 100]\<rparr>
        \<lparr>HAVE_ANDROID_OS = True, properties = Map.empty\<rparr> (Some ''custom.so'') JniInvocation_init
     = Inr (False,
            \<lparr>handle' = None, JNI_GetDefaultJavaVMInitArgs' = Some 100,
             JNI_CreateJavaVM' = None, JNI_GetCreatedJavaVMs' = None\<rparr>,
            [Dlopen ''libart.so'', Dlsym (Some 7) ''JNI_GetDefaultJavaVMInitArgs'',
             Dlsym (Some 7) ''JNI_CreateJavaVM'',
             ALOGE ''Failed to find symbol'' [''JNI_CreateJavaVM''], Dlclose (Some 7)])
   \<and> dlsym \<lparr>dlopen = [''libart.so'' \<mapsto> 7],
         dlsym = [(Some 7, ''JNI_GetDefaultJavaVMInitArgs'') \<mapsto> 100]\<rparr>
        (Some 7, ''JNI_CreateJavaVM'') = None
   \<and> (\<exists>library. Dlopen library \<in> set [Dlopen ''libart.so'',
             Dlsym (Some 7) ''JNI_GetDefaultJavaVMInitArgs'', Dlsym (Some 7) ''JNI_CreateJavaVM'',
             ALOGE ''Failed to find symbol'' [''JNI_CreateJavaVM''], Dlclose (Some 7)]
        \<and> dlopen \<lparr>dlopen = [''libart.so'' \<mapsto> 7],
             dlsym = [(Some 7, ''JNI_GetDefaultJavaVMInitArgs'') \<mapsto> 100]\<rparr> library = Some 7)"
proof -
  have run: "Init \<lparr>dlopen = [''libart.so'' \<mapsto> 7],
         dlsym = [(Some 7, ''JNI_GetDefaultJavaVMInitArgs'') \<mapsto> 100]\<rparr>
        \<lparr>HAVE_ANDROID_OS = True, properties = Map.empty\<rparr> (Some ''custom.so'') JniInvocation_init
     = Inr (False,
            \<lparr>handle' = None, JNI_GetDefaultJavaVMInitArgs' = Some 100,
             JNI_CreateJavaVM' = None, JNI_GetCreatedJavaVMs' = None\<rparr>,
            [Dlopen ''libart.so'', Dlsym (Some 7) ''JNI_GetDefaultJavaVMInitArgs'',
             Dlsym (Some 7) ''JNI_CreateJavaVM'',
             ALOGE ''Failed to find symbol'' [''JNI_CreateJavaVM''], Dlclose (Some 7)])"
    by (simp add: Init_def GetLibrary_def property_get_def kDebuggableFallback_def
        kLibraryFallback_def Init_symbols_def FindSymbol_def JniInvocation_init_def Let_def)
  show ?thesis
    using Init_symbol_failure [OF run, of "Some 7" "''JNI_CreateJavaVM''"] run
    by simp
qed

text \<open>
  C10. When \<open>Init\<close> fails at the open stage (the name it reads fails to open, and so
  does the fallback where the name is another one), it returns false, the member
  \<open>handle_\<close> is null and the three function pointers are what they were; a freshly
  constructed instance is left exactly as constructed.
\<close>

theorem Init_open_failure_frame:
  assumes "c_str_read (GetLibrary cfg requested) = Some library"
    and "dlopen env library = None"
    and "library \<noteq> kLibraryFallback \<longrightarrow> dlopen env kLibraryFallback = None"
  shows "\<exists>this' tr. Init env cfg requested this = Inr (False, this', tr)
           \<and> handle' this' = None
           \<and> JNI_GetDefaultJavaVMInitArgs' this' = JNI_GetDefaultJavaVMInitArgs' this
           \<and> JNI_CreateJavaVM' this' = JNI_CreateJavaVM' this
           \<and> JNI_GetCreatedJavaVMs' this' = JNI_GetCreatedJavaVMs' this
           \<and> (this = JniInvocation_init \<longrightarrow> this' = JniInvocation_init)"
  using assms by (auto simp: Init_cases JniInvocation_init_def)

theorem Init_open_failure_frame_witness:
  "c_str_read (GetLibrary \<lparr>HAVE_ANDROID_OS = True, properties = [''ro.debuggable'' \<mapsto> ''1'']\<rparr>
      (Some ''custom.so'')) = Some ''custom.so''
   \<and> dlopen \<lparr>dlopen = Map.empty, dlsym = Map.empty\<rparr> ''custom.so'' = None
   \<and> dlopen \<lparr>dlopen = Map.empty, dlsym = Map.empty\<rparr> kLibraryFallback = None
   \<and> (\<exists>tr. Init \<lparr>dlopen = Map.empty, dlsym = Map.empty\<rparr>
               \<lparr>HAVE_ANDROID_OS = True, properties = [''ro.debuggable'' \<mapsto> ''1'']\<rparr>
               (Some ''custom.so'') JniInvocation_init = Inr (False, JniInvocation_init, tr))"
proof -
  have a: "c_str_read (GetLibrary \<lparr>HAVE_ANDROID_OS = True,
             properties = [''ro.debuggable'' \<mapsto> ''1'']\<rparr> (Some ''custom.so'')) = Some ''custom.so''"
    by (simp add: GetLibrary_def property_get_def kDebuggableSystemProperty_def Let_def)
  have c: "dlopen \<lparr>dlopen = Map.empty, dlsym = Map.empty\<rparr> n = None" for n
    by simp
  show ?thesis
    using Init_open_failure_frame [OF a c, of JniInvocation_init] a c
    by auto
qed




section \<open>The single instance\<close>

text \<open>
  C8. In every state that a sequence of constructions, destructions and loads reaches
  from program start, at most one instance is live, and while one is live the
  constructor run for any further instance ends in the fatal assertion.
\<close>

theorem second_instance_is_fatal:
  assumes "run ops process_start = Inr p"
  shows "(\<forall>a b. objects p a \<noteq> None \<and> objects p b \<noteq> None \<longrightarrow> a = b)
       \<and> (\<forall>a this. objects p a \<noteq> None \<longrightarrow>
             JniInvocation_ctor this p =
               Inl (Log_assert ''jni_invocation_ != NULL'' ''JniInvocation''
                      ''JniInvocation instance already initialized''))"
proof -
  have inv: "singleton_inv p"
    using singleton_inv_run [OF singleton_inv_start assms] .
  have one: "a = b" if "objects p a \<noteq> None" and "objects p b \<noteq> None" for a b
    using singleton_inv_unique [OF inv that] .
  have fatal: "JniInvocation_ctor this p =
       Inl (Log_assert ''jni_invocation_ != NULL'' ''JniInvocation''
              ''JniInvocation instance already initialized'')"
    if "objects p a \<noteq> None" for a this
    using singleton_inv_live [OF inv that]
    by (simp add: JniInvocation_ctor_def android_log_assert_def LOG_TAG_def)
  from one fatal show ?thesis by blast
qed

theorem second_instance_is_fatal_witness:
  "run [Construct 1] process_start =
     Inr \<lparr>jni_invocation' = Some 1, objects = [1 \<mapsto> JniInvocation_init], events = []\<rparr>
   \<and> objects \<lparr>jni_invocation' = Some 1, objects = [1 \<mapsto> JniInvocation_init], events = []\<rparr> 1
       \<noteq> None
   \<and> JniInvocation_ctor 2
       \<lparr>jni_invocation' = Some 1, objects = [1 \<mapsto> JniInvocation_init], events = []\<rparr> =
     Inl (Log_assert ''jni_invocation_ != NULL'' ''JniInvocation''
            ''JniInvocation instance already initialized'')
   \<and> run [Construct 1, Construct 2] process_start =
     Inl (Log_assert ''jni_invocation_ != NULL'' ''JniInvocation''
            ''JniInvocation instance already initialized'')"
proof -
  have r: "run [Construct 1] process_start =
     Inr \<lparr>jni_invocation' = Some 1, objects = [1 \<mapsto> JniInvocation_init], events = []\<rparr>"
    by (simp add: process_start_def JniInvocation_ctor_def)
  show ?thesis
    using second_instance_is_fatal [OF r] r
    by (simp add: JniInvocation_ctor_def android_log_assert_def LOG_TAG_def)
qed

text \<open>
  C9. The destructor run for a live instance sets \<open>jni_invocation_\<close> to null and ends
  that instance, and in the state it leaves the constructor succeeds for any new
  instance, which becomes the one \<open>jni_invocation_\<close> points to.
\<close>

theorem construct_after_destroy:
  assumes "objects p this \<noteq> None"
  shows "\<exists>p'. JniInvocation_dtor this p = Inr p'
           \<and> jni_invocation' p' = None
           \<and> objects p' this = None
           \<and> (\<forall>that. \<exists>p''. JniInvocation_ctor that p' = Inr p''
                 \<and> jni_invocation' p'' = Some that
                 \<and> objects p'' that = Some JniInvocation_init)"
  using assms by (auto simp: JniInvocation_dtor_def JniInvocation_ctor_def)

theorem construct_after_destroy_witness:
  "objects \<lparr>jni_invocation' = Some 1, objects = [1 \<mapsto> JniInvocation_init], events = []\<rparr> 1 \<noteq> None
   \<and> JniInvocation_dtor 1
       \<lparr>jni_invocation' = Some 1, objects = [1 \<mapsto> JniInvocation_init], events = []\<rparr> =
     Inr \<lparr>jni_invocation' = None, objects = Map.empty, events = []\<rparr>
   \<and> JniInvocation_ctor 2 \<lparr>jni_invocation' = None, objects = Map.empty, events = []\<rparr> =
     Inr \<lparr>jni_invocation' = Some 2, objects = [2 \<mapsto> JniInvocation_init], events = []\<rparr>
   \<and> run [Construct 1, Destroy 1, Construct 2] process_start =
       Inr \<lparr>jni_invocation' = Some 2, objects = [2 \<mapsto> JniInvocation_init], events = []\<rparr>"
  using construct_after_destroy
    [of "\<lparr>jni_invocation' = Some 1, objects = [1 \<mapsto> JniInvocation_init], events = []\<rparr>" 1]
  by (simp add: process_start_def JniInvocation_ctor_def JniInvocation_dtor_def
      JniInvocation_init_def)

end
